theory Spec2Isabelle
  imports Complex_Main "HOL-Library.Sublist" "HOL-Library.AList" "HOL-Library.Multiset"
begin

section \<open>Python values\<close>

text \<open>
  The pipeline passes Python dictionaries with string keys between its stages. A
  dictionary is an association list in insertion order: \<open>d[k] = v\<close> is
  \<^const>\<open>AList.update\<close> (an existing key keeps its place, a new key goes to the end) and
  \<open>d.get(k, default)\<close> is \<open>dict_get\<close>. Python floats are idealised as real numbers: every
  float constant of the source is a decimal literal and is taken at its decimal value.
  Strings are byte strings; \<open>lower\<close> and \<open>strip\<close> act on ASCII, where they agree with
  Python's \<open>str.lower\<close> and \<open>str.strip\<close>.
\<close>

datatype pyval =
    PNone
  | PBool bool
  | PInt int
  | PFloat real
  | PStr string
  | PList "pyval list"
  | PDict "(string \<times> pyval) list"

type_synonym pydict = "(string \<times> pyval) list"

text \<open>A raised exception, with the text that \<open>str(e)\<close> gives.\<close>

datatype exn = Exception string

fun str_exn :: "exn \<Rightarrow> string" where
  "str_exn (Exception msg) = msg"

definition dict_get :: "pydict \<Rightarrow> string \<Rightarrow> pyval \<Rightarrow> pyval" where
  "dict_get d k dflt = (case map_of d k of None \<Rightarrow> dflt | Some v \<Rightarrow> v)"

subsection \<open>Strings\<close>

definition lower_char :: "char \<Rightarrow> char" where
  "lower_char c =
     (let n = (of_char c :: nat) in if 65 \<le> n \<and> n \<le> 90 then char_of (n + 32) else c)"

definition lower :: "string \<Rightarrow> string" where
  "lower s = map lower_char s"

text \<open>The ASCII characters for which \<open>str.isspace\<close> holds.\<close>

definition isspace :: "char \<Rightarrow> bool" where
  "isspace c = (let n = (of_char c :: nat) in (9 \<le> n \<and> n \<le> 13) \<or> (28 \<le> n \<and> n \<le> 32))"

definition strip :: "string \<Rightarrow> string" where
  "strip s = rev (dropWhile isspace (rev (dropWhile isspace s)))"

text \<open>\<open>sub in s\<close> on strings: \<open>sub\<close> occurs in \<open>s\<close> as a contiguous run.\<close>

fun str_in :: "string \<Rightarrow> string \<Rightarrow> bool" where
  "str_in sub [] = (sub = [])"
| "str_in sub (c # cs) = (prefix sub (c # cs) \<or> str_in sub cs)"

definition startswith :: "string \<Rightarrow> string \<Rightarrow> bool" where
  "startswith s p = prefix p s"

fun join :: "string \<Rightarrow> string list \<Rightarrow> string" where
  "join sep [] = []"
| "join sep [x] = x"
| "join sep (x # y # ys) = x @ sep @ join sep (y # ys)"

text \<open>Python's truncating slice \<open>xs[:k]\<close>; a negative \<open>k\<close> counts from the end.\<close>

definition slice_to :: "'a list \<Rightarrow> int \<Rightarrow> 'a list" where
  "slice_to xs k = (if 0 \<le> k then take (nat k) xs else take (length xs - nat (- k)) xs)"

text \<open>
  \<open>float(v)\<close>: numbers and booleans convert, an integer too large for a float raises
  OverflowError, a string is parsed by the interpreter (\<open>float_str\<close>, which may raise
  ValueError), anything else raises TypeError.
\<close>

fun py_float :: "(string \<Rightarrow> exn + real) \<Rightarrow> pyval \<Rightarrow> exn + real" where
  "py_float float_str (PFloat x) = Inr x"
| "py_float float_str (PInt i) =
     (if \<bar>i\<bar> < 2 ^ 1024 - 2 ^ 970 then Inr (of_int i) else Inl (Exception ''OverflowError''))"
| "py_float float_str (PBool b) = Inr (if b then 1 else 0)"
| "py_float float_str (PStr s) = float_str s"
| "py_float float_str v = Inl (Exception ''TypeError'')"

text \<open>
  \<open>max(v, m)\<close> for a float \<open>m\<close>: Python returns the first argument unless the second is
  greater; comparing a float with a value that is not a number raises TypeError.
\<close>

fun py_max :: "pyval \<Rightarrow> real \<Rightarrow> exn + pyval" where
  "py_max (PFloat x) m = Inr (if x < m then PFloat m else PFloat x)"
| "py_max (PInt i) m = Inr (if of_int i < m then PFloat m else PInt i)"
| "py_max (PBool b) m = Inr (if (if b then 1 else 0) < m then PFloat m else PBool b)"
| "py_max v m = Inl (Exception ''TypeError'')"

section \<open>generator.py\<close>

text \<open>
  What \<open>Generator\<close> holds and calls but does not define: the tokenizer and model
  (\<open>model_generate\<close>: prompt and the four decoding arguments to the decoded text, or an
  exception), \<open>json.loads\<close> and the string case of \<open>float\<close>.
\<close>

record generator =
  model_generate :: "string \<Rightarrow> pyval \<Rightarrow> pyval \<Rightarrow> pyval \<Rightarrow> pyval \<Rightarrow> exn + string"
  json_loads :: "string \<Rightarrow> exn + pyval"
  float_str :: "string \<Rightarrow> exn + real"

definition parse_error :: "string \<Rightarrow> pydict" where
  "parse_error txt =
     [(''label'', PStr ''Uncertain''),
      (''confidence'', PFloat 0.5),
      (''explanation'', PStr (strip txt)),
      (''counterfactual'', PStr ''''),
      (''reasoning'', PList [])]"

text \<open>
  \<open>_parse_output\<close>. Every exception of the \<open>try\<close> body ends in \<open>parse_error\<close>: a failing
  \<open>json.loads\<close>, a failing \<open>float\<close>, and \<open>data.get\<close> on a value that is not a dictionary.
\<close>

definition parse_output :: "generator \<Rightarrow> string \<Rightarrow> pydict" where
  "parse_output G txt =
     (if startswith (strip txt) ''{'' then
        (case json_loads G txt of
           Inr (PDict data) \<Rightarrow>
             (case py_float (float_str G) (dict_get data ''confidence'' (PFloat 0.6)) of
                Inr c \<Rightarrow>
                  [(''label'', dict_get data ''label'' (PStr ''Uncertain'')),
                   (''confidence'', PFloat c),
                   (''explanation'', dict_get data ''explanation'' (PStr '''')),
                   (''counterfactual'', dict_get data ''counterfactual'' (PStr '''')),
                   (''reasoning'', dict_get data ''reasoning'' (PList []))]
              | Inl e \<Rightarrow> parse_error txt)
         | _ \<Rightarrow> parse_error txt)
      else
        (let label =
               (if str_in ''not true'' (lower txt) \<or> str_in ''false'' (lower txt) then ''Fake''
                else if str_in ''true'' (lower txt) then ''True'' else ''Uncertain'')
         in [(''label'', PStr label),
             (''confidence'', PFloat (if label \<noteq> ''Uncertain'' then 0.8 else 0.5)),
             (''explanation'', PStr (strip txt)),
             (''counterfactual'', PStr ''''),
             (''reasoning'', PList [])]))"

definition fake_terms :: "string list" where
  "fake_terms =
     [''anti-scientific'', ''not true'', ''false'', ''hoax'', ''conspiracy'', ''debunked'']"

text \<open>
  \<open>_correct_with_evidence\<close>. The only statement that can raise is \<open>max\<close> in the first
  branch, and the exception leaves the method.
\<close>

definition correct_with_evidence :: "pydict \<Rightarrow> string \<Rightarrow> string list \<Rightarrow> exn + pydict" where
  "correct_with_evidence parsed claim evidence_texts =
     (let claim_lower = lower claim;
          evidence_joined = lower (join '' '' evidence_texts)
      in if list_ex (\<lambda>w. str_in w evidence_joined) fake_terms then
           (case py_max (dict_get parsed ''confidence'' (PFloat 0.7)) 0.9 of
              Inl e \<Rightarrow> Inl e
            | Inr c \<Rightarrow>
                Inr (AList.update ''counterfactual''
                       (PStr ''If verified empirical data supported the claim, it could be true.'')
                    (AList.update ''explanation''
                       (PStr ''Evidence indicates the claim contradicts scientific consensus.'')
                    (AList.update ''confidence'' c
                    (AList.update ''label'' (PStr ''Fake'') parsed)))))
         else if str_in ''scientific consensus'' evidence_joined \<and> str_in ''flat'' claim_lower then
           Inr (AList.update ''counterfactual''
                  (PStr ''If all scientific and satellite data were falsified, the claim might appear true.'')
               (AList.update ''explanation''
                  (PStr ''Scientific consensus confirms Earth is spherical, not flat.'')
               (AList.update ''confidence'' (PFloat 0.95)
               (AList.update ''label'' (PStr ''Fake'') parsed))))
         else if str_in ''confirm'' evidence_joined \<or> str_in ''proves'' evidence_joined then
           Inr (AList.update ''confidence'' (PFloat 0.9)
               (AList.update ''label'' (PStr ''True'') parsed))
         else if str_in ''no evidence'' evidence_joined \<or> str_in ''unclear'' evidence_joined then
           Inr (AList.update ''confidence'' (PFloat 0.6)
               (AList.update ''label'' (PStr ''Uncertain'') parsed))
         else Inr parsed)"

definition newline :: string where
  "newline = [CHR 0x0A]"

text \<open>The dash of the prompt is U+2014, here its three UTF-8 bytes.\<close>

definition em_dash :: string where
  "em_dash = [CHR 0xE2, CHR 0x80, CHR 0x94]"

definition prompt :: "string \<Rightarrow> string \<Rightarrow> string" where
  "prompt claim context_text =
     ''You are a fact verification model.'' @ newline @
     ''Claim: '' @ claim @ newline @ newline @
     ''Evidence:'' @ newline @ context_text @ newline @ newline @
     ''Decide whether the claim is True, Fake, or Uncertain based only on the evidence. '' @
     ''Then explain briefly why and give a counterfactual '' @ em_dash @
     '' what would make the claim true. '' @
     ''Respond ONLY in JSON format with keys: label, confidence, explanation, counterfactual.''"

definition default_params :: pydict where
  "default_params =
     [(''max_length'', PInt 256),
      (''temperature'', PFloat 0.7),
      (''num_beams'', PInt 4),
      (''repetition_penalty'', PFloat 1.2)]"

definition empty_claim :: pydict where
  "empty_claim =
     [(''label'', PStr ''Uncertain''), (''confidence'', PFloat 0.0), (''explanation'', PStr ''Empty claim'')]"

text \<open>
  \<open>generate_explanation\<close>. \<open>decoding_params or {...}\<close> takes the defaults for \<open>None\<close> and
  for the empty dictionary. An exception of the model, or of the correction pass, is
  raised to the caller.
\<close>

definition generate_explanation ::
    "generator \<Rightarrow> string \<Rightarrow> string list \<Rightarrow> pydict option \<Rightarrow> exn + pydict" where
  "generate_explanation G claim evidence_texts decoding_params =
     (if claim = [] then Inr empty_claim
      else
        let context_text =
              (if evidence_texts \<noteq> [] then join '' '' (take 5 evidence_texts)
               else ''No relevant evidence found.'');
            params =
              (case decoding_params of
                 None \<Rightarrow> default_params
               | Some d \<Rightarrow> if d = [] then default_params else d)
        in case model_generate G (prompt claim context_text)
                  (dict_get params ''max_length'' (PInt 256))
                  (dict_get params ''temperature'' (PFloat 0.7))
                  (dict_get params ''num_beams'' (PInt 4))
                  (dict_get params ''repetition_penalty'' (PFloat 1.2)) of
             Inl e \<Rightarrow> Inl e
           | Inr decoded \<Rightarrow> correct_with_evidence (parse_output G decoded) claim evidence_texts)"

section \<open>tao_optimizer.py\<close>

text \<open>\<open>training_stats\<close> and \<open>last_update\<close> of a \<open>TAOOptimizer\<close>; \<open>time.time()\<close> is a real.\<close>

record tao_optimizer =
  model_name :: string
  steps :: nat
  updates :: nat
  loss :: real
  last_update :: real

text \<open>\<open>__init__\<close>, constructed at time \<open>now\<close>.\<close>

definition tao_init :: "string option \<Rightarrow> real \<Rightarrow> tao_optimizer" where
  "tao_init name now =
     \<lparr>model_name =
        (case name of None \<Rightarrow> ''google/flan-t5-base''
         | Some m \<Rightarrow> if m = [] then ''google/flan-t5-base'' else m),
      steps = 0, updates = 0, loss = 0.0, last_update = now\<rparr>"

text \<open>Rounding to the nearest integer, a tie to the even neighbour, as Python rounds.\<close>

definition round_half_even :: "real \<Rightarrow> int" where
  "round_half_even y =
     (let f = \<lfloor>y\<rfloor>; d = y - of_int f
      in if d < 1 / 2 then f else if 1 / 2 < d then f + 1 else if even f then f else f + 1)"

text \<open>
  \<open>round(x, 2)\<close>, on the real number that stands for the float: where the decimal value
  lies exactly between two hundredths the rounding of the binary float may go the other
  way.
\<close>

definition py_round2 :: "real \<Rightarrow> real" where
  "py_round2 x = of_int (round_half_even (x * 100)) / 100"

text \<open>
  The \<open>random\<close> module, which the optimizer calls but does not define: \<open>random.uniform(a, b)\<close>
  and \<open>random.choice(seq)\<close>, each from the state of the generator to the result of the call,
  a value or an exception, and the next state.
\<close>

record 'g random_module =
  random_uniform :: "real \<Rightarrow> real \<Rightarrow> 'g \<Rightarrow> (exn + real) \<times> 'g"
  random_choice :: "int list \<Rightarrow> 'g \<Rightarrow> (exn + int) \<times> 'g"

definition fallback_params :: pydict where
  "fallback_params =
     [(''temperature'', PFloat 0.7), (''num_beams'', PInt 4), (''repetition_penalty'', PFloat 1.2)]"

text \<open>
  \<open>optimize_generation\<close>, from the state of the generator: the three calls are made in
  program order, each from the state the one before left, and the handler of the \<open>try\<close>
  returns \<open>fallback_params\<close>.
\<close>

definition optimize_generation :: "'g random_module \<Rightarrow> 'g \<Rightarrow> pydict \<times> 'g" where
  "optimize_generation M g =
     (case random_uniform M 0.6 0.9 g of
        (Inl e, g1) \<Rightarrow> (fallback_params, g1)
      | (Inr u, g1) \<Rightarrow>
          (let temperature = py_round2 u in
           case random_choice M [2, 4, 6] g1 of
             (Inl e, g2) \<Rightarrow> (fallback_params, g2)
           | (Inr num_beams, g2) \<Rightarrow>
               (case random_uniform M 1.0 1.3 g2 of
                  (Inl e, g3) \<Rightarrow> (fallback_params, g3)
                | (Inr v, g3) \<Rightarrow>
                    (let repetition_penalty = py_round2 v in
                     ([(''temperature'', PFloat temperature),
                       (''num_beams'', PInt num_beams),
                       (''repetition_penalty'', PFloat repetition_penalty)], g3)))))"

text \<open>\<open>str(n)\<close> for a count.\<close>

fun str_nat :: "nat \<Rightarrow> string" where
  "str_nat n =
     (if n < 10 then [char_of (48 + n)]
      else str_nat (n div 10) @ [char_of (48 + n mod 10)])"

declare str_nat.simps [simp del]

definition pad3 :: "string \<Rightarrow> string" where
  "pad3 s = replicate (3 - length s) CHR ''0'' @ s"

text \<open>The format \<open>{x:.3f}\<close>: three decimals, rounded half to even.\<close>

definition format_3f :: "real \<Rightarrow> string" where
  "format_3f x =
     (let m = nat (round_half_even (\<bar>x\<bar> * 1000))
      in (if x < 0 then ''-'' else []) @ str_nat (m div 1000) @ ''.'' @ pad3 (str_nat (m mod 1000)))"

text \<open>
  \<open>continual_train\<close>, called at time \<open>now\<close>; \<open>cuda\<close> is the outcome of
  \<open>torch.cuda.is_available()\<close>, the one call of the \<open>try\<close> body that can raise, and it comes
  after the statistics are updated. The result is the status string and the optimizer.
\<close>

definition continual_train ::
    "real \<Rightarrow> exn + bool \<Rightarrow> pydict list \<Rightarrow> tao_optimizer \<Rightarrow> string \<times> tao_optimizer" where
  "continual_train now cuda data_batch self =
     (if data_batch = [] then (''No data provided for TAO training.'', self)
      else
        let self1 = self\<lparr>steps := steps self + length data_batch\<rparr>;
            self2 = self1\<lparr>updates := updates self1 + 1\<rparr>;
            self3 = self2\<lparr>loss := max 0.01 (0.5 - 0.05 * real (updates self2))\<rparr>;
            self4 = self3\<lparr>last_update := now\<rparr>
        in case cuda of
             Inl e \<Rightarrow> (''TAO failed: '' @ str_exn e, self4)
           | Inr device \<Rightarrow>
               (''TAO adapted: '' @ str_nat (updates self4) @ '' updates, loss='' @
                  format_3f (loss self4), self4))"

text \<open>A run of calls, each with its time, its device check and its batch, oldest first.\<close>

fun train_all :: "(real \<times> (exn + bool) \<times> pydict list) list \<Rightarrow> tao_optimizer \<Rightarrow> tao_optimizer" where
  "train_all [] self = self"
| "train_all ((now, cuda, batch) # calls) self =
     train_all calls (snd (continual_train now cuda batch self))"

section \<open>live_retriever.py\<close>

text \<open>An evidence document: the dictionary with keys \<open>source\<close>, \<open>text\<close> and \<open>score\<close>.\<close>

record evidence =
  ev_source :: string
  ev_text :: string
  ev_score :: "real option"

definition doc_dict :: "evidence \<Rightarrow> pyval" where
  "doc_dict e =
     PDict [(''source'', PStr (ev_source e)),
            (''text'', PStr (ev_text e)),
            (''score'', (case ev_score e of None \<Rightarrow> PNone | Some s \<Rightarrow> PFloat s))]"

text \<open>
  The three adapters answer from services outside the program (the FAISS index,
  Wikipedia, NewsAPI) and turn their own failures into the empty list; they are given as
  functions of the query and the limit. \<open>encode\<close> is the sentence embedder: a list of
  texts to a matrix with one row for each text, or an exception.
\<close>

record retriever =
  search_faiss :: "string \<Rightarrow> int \<Rightarrow> evidence list"
  wikipedia_search :: "string \<Rightarrow> int \<Rightarrow> evidence list"
  newsapi_search :: "string \<Rightarrow> int \<Rightarrow> evidence list"
  encode :: "string list \<Rightarrow> exn + real list list"

definition dot :: "real list \<Rightarrow> real list \<Rightarrow> real" where
  "dot u v = sum_list (map2 (*) u v)"

text \<open>\<open>faiss.normalize_L2\<close> on one row: a row of norm zero is left as it is.\<close>

definition normalize_L2 :: "real list \<Rightarrow> real list" where
  "normalize_L2 v =
     (let nr = sum_list (map (\<lambda>x. x * x) v)
      in if 0 < nr then map (\<lambda>x. x * (1 / sqrt nr)) v else v)"

text \<open>
  \<open>np.dot(text_embs, query_emb.T).flatten()\<close>: the products of every row of the first
  matrix with every row of the second, row by row; rows of different lengths raise
  ValueError.
\<close>

definition np_dot_T :: "real list list \<Rightarrow> real list list \<Rightarrow> exn + real list" where
  "np_dot_T A B =
     (if list_all (\<lambda>a. list_all (\<lambda>b. length a = length b) B) A
      then Inr (concat (map (\<lambda>a. map (\<lambda>b. dot a b) B) A))
      else Inl (Exception ''ValueError''))"

text \<open>
  The loop \<open>evidence[i]["score"] = float(score)\<close> over \<open>enumerate(scores)\<close>, as far as it
  gets: with more scores than documents it ends in IndexError after the last document.
\<close>

fun set_scores :: "real list \<Rightarrow> evidence list \<Rightarrow> evidence list" where
  "set_scores (s # ss) (e # es) = e\<lparr>ev_score := Some s\<rparr> # set_scores ss es"
| "set_scores ss es = es"

definition score_key :: "evidence \<Rightarrow> real" where
  "score_key e = (case ev_score e of None \<Rightarrow> 0 | Some s \<Rightarrow> s)"

text \<open>
  \<open>sorted(evidence, key=lambda x: x["score"], reverse=True)\<close>. With two or more documents
  every key is compared, and comparing \<open>None\<close> raises TypeError. For \<open>reverse=True\<close> Python
  reverses the list, sorts it stably in ascending order and reverses the result.
\<close>

definition sorted_by_score :: "evidence list \<Rightarrow> exn + evidence list" where
  "sorted_by_score es =
     (if 2 \<le> length es \<and> list_ex (\<lambda>e. ev_score e = None) es
      then Inl (Exception ''TypeError'')
      else Inr (rev (sort_key score_key (rev es))))"

text \<open>The \<open>try\<close> block of \<open>retrieve\<close>; its handler returns \<open>evidence\<close> as the loop left it.\<close>

definition scoring_pass :: "retriever \<Rightarrow> string \<Rightarrow> int \<Rightarrow> evidence list \<Rightarrow> evidence list" where
  "scoring_pass R query top_k evidence =
     (case encode R [query] of
        Inl e \<Rightarrow> evidence
      | Inr query_emb \<Rightarrow>
          (case encode R (map ev_text evidence) of
             Inl e \<Rightarrow> evidence
           | Inr text_embs \<Rightarrow>
               (case np_dot_T (map normalize_L2 text_embs) (map normalize_L2 query_emb) of
                  Inl e \<Rightarrow> evidence
                | Inr scores \<Rightarrow>
                    (let scored = set_scores scores evidence
                     in if length evidence < length scores then scored
                        else (case sorted_by_score scored of
                                Inl e \<Rightarrow> scored
                              | Inr ranked \<Rightarrow> slice_to ranked top_k)))))"

definition retrieve :: "retriever \<Rightarrow> string \<Rightarrow> int \<Rightarrow> evidence list" where
  "retrieve R query top_k =
     (if query = [] then []
      else
        let evidence =
              search_faiss R query top_k @ wikipedia_search R query 2 @ newsapi_search R query 3
        in if evidence = [] then [] else scoring_pass R query top_k evidence)"

section \<open>rag_pipeline.py\<close>

text \<open>
  A \<open>RAGPipeline\<close> holds a retriever, a generator and an optimizer, each of which may be
  missing (\<open>None\<close>) when its construction failed.
\<close>

record pipeline =
  ret :: "retriever option"
  gen :: "generator option"
  tao :: "tao_optimizer option"

text \<open>
  What one call of \<open>analyze\<close> reads from outside the program: the \<open>random\<close> module and the
  state of its generator, the clock and the device check of \<open>continual_train\<close>, and
  \<open>time.ctime\<close>.
\<close>

record 'g world =
  rng :: "'g random_module"
  rng_state :: 'g
  clock :: real
  cuda :: "exn + bool"
  ctime :: "real \<Rightarrow> exn + string"

definition empty_input :: pydict where
  "empty_input =
     [(''label'', PStr ''Uncertain''),
      (''confidence'', PFloat 0.0),
      (''explanation'', PStr ''Empty input.''),
      (''_evidence'', PList []),
      (''tao_status'', PStr ''No input provided.'')]"

text \<open>
  \<open>analyze\<close>: the returned dictionary and the pipeline after the call (only the optimizer
  can change). \<open>retrieve\<close> and \<open>optimize_generation\<close> catch their own exceptions, so the
  handlers around them are never entered.
\<close>

definition analyze :: "'g world \<Rightarrow> pipeline \<Rightarrow> string \<Rightarrow> pydict \<times> pipeline" where
  "analyze W self txt =
     (if txt = [] \<or> strip txt = [] then (empty_input, self)
      else
        let evidence_docs = (case ret self of None \<Rightarrow> [] | Some R \<Rightarrow> retrieve R txt 6);
            evidence_texts = map ev_text (filter (\<lambda>d. ev_text d \<noteq> []) evidence_docs);
            decoding_cfg =
              (case tao self of
                 None \<Rightarrow> None
               | Some T \<Rightarrow> Some (fst (optimize_generation (rng W) (rng_state W))))
        in case gen self of
             None \<Rightarrow>
               ([(''label'', PStr ''Uncertain''),
                 (''confidence'', PFloat 0.5),
                 (''explanation'', PStr ''Generator not available.''),
                 (''_evidence'', PList (map doc_dict evidence_docs)),
                 (''tao_status'', PStr ''Skipped (no generator)'')], self)
           | Some G \<Rightarrow>
               (let out =
                      (case generate_explanation G txt evidence_texts decoding_cfg of
                         Inr r \<Rightarrow>
                           if r = [] then
                             [(''label'', PStr ''Uncertain''),
                              (''confidence'', PFloat 0.5),
                              (''explanation'', PStr ''No output'')]
                           else r
                       | Inl e \<Rightarrow>
                           [(''label'', PStr ''Uncertain''),
                            (''confidence'', PFloat 0.5),
                            (''explanation'', PStr (str_exn e))])
                in case tao self of
                     None \<Rightarrow>
                       (AList.update ''_evidence'' (PList (map doc_dict evidence_docs))
                          (AList.update ''tao_status'' (PStr ''TAO module not loaded.'') out),
                        self)
                   | Some T \<Rightarrow>
                       (let sample =
                              [(''text'', PStr txt),
                               (''label'', dict_get out ''label'' (PStr ''Uncertain''))];
                            (status, T') = continual_train (clock W) (cuda W) [sample] T;
                            out1 = AList.update ''tao_status'' (PStr status) out;
                            out2 =
                              (case ctime W (last_update T') of
                                 Inr stamp \<Rightarrow> AList.update ''last_update'' (PStr stamp) out1
                               | Inl e \<Rightarrow>
                                   AList.update ''tao_status''
                                     (PStr (''TAO failed: '' @ str_exn e)) out1)
                        in (AList.update ''_evidence'' (PList (map doc_dict evidence_docs)) out2,
                            self\<lparr>tao := Some T'\<rparr>))))"

section \<open>Conditions of the properties and example inputs\<close>

text \<open>Three calls of \<open>continual_train\<close>; the second one fails its device check.\<close>

definition example_calls :: "(real \<times> (exn + bool) \<times> pydict list) list" where
  "example_calls =
     [(1, Inr False, [[(''text'', PStr ''a''), (''label'', PStr ''True'')]]),
      (2, Inl (Exception ''no device''), [[(''text'', PStr ''b'')], []]),
      (3, Inr True, [[]])]"

text \<open>
  What the \<open>random\<close> module promises: \<open>uniform(a, b)\<close> with \<open>a \<le> b\<close> returns a number \<open>N\<close> with
  \<open>a \<le> N \<le> b\<close>, and \<open>choice(seq)\<close> returns an element of \<open>seq\<close>.
\<close>

definition random_contract :: "'g random_module \<Rightarrow> bool" where
  "random_contract M =
     ((\<forall>a b g x. a \<le> b \<and> fst (random_uniform M a b g) = Inr x \<longrightarrow> a \<le> x \<and> x \<le> b) \<and>
      (\<forall>xs g x. fst (random_choice M xs g) = Inr x \<longrightarrow> x \<in> set xs))"

text \<open>A call raised an exception.\<close>

definition raises :: "exn + 'a \<Rightarrow> bool" where
  "raises r = (case r of Inl e \<Rightarrow> True | Inr v \<Rightarrow> False)"

text \<open>
  A generator that counts its calls: \<open>uniform\<close> answers a fixed point of the interval and
  \<open>choice\<close> the element at the count. In the second one \<open>choice\<close> raises.
\<close>

definition example_random :: "nat random_module" where
  "example_random =
     \<lparr>random_uniform = (\<lambda>a b g. (Inr (a + (b - a) * 0.448), Suc g)),
      random_choice =
        (\<lambda>xs g. (if xs = [] then Inl (Exception ''IndexError'')
                  else Inr (xs ! (g mod length xs)), Suc g))\<rparr>"

definition failing_random :: "nat random_module" where
  "failing_random =
     \<lparr>random_uniform = (\<lambda>a b g. (Inr (a + (b - a) * 0.448), Suc g)),
      random_choice = (\<lambda>xs g. (Inl (Exception ''IndexError''), Suc g))\<rparr>"

text \<open>The conditions of the four correction rules, as \<open>_correct_with_evidence\<close> tests them.\<close>

definition rule_a :: "string list \<Rightarrow> bool" where
  "rule_a evidence_texts =
     list_ex (\<lambda>w. str_in w (lower (join '' '' evidence_texts))) fake_terms"

definition rule_b :: "string \<Rightarrow> string list \<Rightarrow> bool" where
  "rule_b claim evidence_texts =
     (str_in ''scientific consensus'' (lower (join '' '' evidence_texts)) \<and>
      str_in ''flat'' (lower claim))"

definition rule_c :: "string list \<Rightarrow> bool" where
  "rule_c evidence_texts =
     (str_in ''confirm'' (lower (join '' '' evidence_texts)) \<or>
      str_in ''proves'' (lower (join '' '' evidence_texts)))"

definition rule_d :: "string list \<Rightarrow> bool" where
  "rule_d evidence_texts =
     (str_in ''no evidence'' (lower (join '' '' evidence_texts)) \<or>
      str_in ''unclear'' (lower (join '' '' evidence_texts)))"

text \<open>
  A generator whose model answers every prompt with the same JSON text, which
  \<open>json.loads\<close> reads as the dictionary it denotes.
\<close>

definition maybe_text :: string where
  \<open>maybe_text = ''{"label": "Maybe"}''\<close>

definition maybe_generator :: generator where
  "maybe_generator =
     \<lparr>model_generate = (\<lambda>p max_length temperature num_beams repetition_penalty. Inr maybe_text),
      json_loads = (\<lambda>s. if s = maybe_text then Inr (PDict [(''label'', PStr ''Maybe'')])
                         else Inl (Exception ''JSONDecodeError'')),
      float_str = (\<lambda>s. Inl (Exception ''ValueError''))\<rparr>"

text \<open>Evidence lists that meet rule a (with both words of C7), rule b, rule c and rule d.\<close>

definition refuting_evidence :: "string list" where
  "refuting_evidence = [''The claim is False.'', ''Nothing proves it.'']"

definition consensus_evidence :: "string list" where
  "consensus_evidence = [''Scientific consensus confirms Earth is round.'']"

definition confirming_evidence :: "string list" where
  "confirming_evidence = [''A study confirms it.'']"

definition unclear_evidence :: "string list" where
  "unclear_evidence = [''No evidence available either way.'']"

text \<open>The verdict parsed from the free text \<open>it is true\<close>.\<close>

definition true_verdict :: pydict where
  "true_verdict = parse_output maybe_generator ''it is true''"

text \<open>
  The list that \<open>retrieve\<close> sorts when the scoring pass succeeds: the documents of the
  concatenation, in order, each with its score replaced by the product of its normalised
  embedding with the normalised embedding of the query.
\<close>

definition cosine_similarity :: "real list \<Rightarrow> real list \<Rightarrow> real" where
  "cosine_similarity u v = dot (normalize_L2 u) (normalize_L2 v)"

definition cosine_scored :: "evidence list \<Rightarrow> real list list \<Rightarrow> real list \<Rightarrow> evidence list" where
  "cosine_scored evidence text_embs q_emb =
     map2 (\<lambda>e t. e\<lparr>ev_score := Some (cosine_similarity t q_emb)\<rparr>) evidence text_embs"

definition ranked :: "evidence list \<Rightarrow> evidence list" where
  "ranked es = rev (sort_key score_key (rev es))"

text \<open>
  A retriever with one local hit, which comes with a score of its own, two encyclopedic
  hits without score and no news, and an embedder that maps the query to \<open>(3, 4)\<close> and the
  three texts to \<open>(0, 2)\<close>, \<open>(1, 0)\<close> and \<open>(0, 1)\<close>.
\<close>

definition doc_gamma :: evidence where
  "doc_gamma = \<lparr>ev_source = ''local_FAISS'', ev_text = ''gamma'', ev_score = Some 0.99\<rparr>"

definition doc_alpha :: evidence where
  "doc_alpha =
     \<lparr>ev_source = ''https://en.wikipedia.org/wiki/Alpha'', ev_text = ''alpha'', ev_score = None\<rparr>"

definition doc_beta :: evidence where
  "doc_beta =
     \<lparr>ev_source = ''https://en.wikipedia.org/wiki/Beta'', ev_text = ''beta'', ev_score = None\<rparr>"

fun example_embed :: "string \<Rightarrow> real list" where
  "example_embed t =
     (if t = ''gamma'' then [0, 2] else if t = ''alpha'' then [1, 0]
      else if t = ''beta'' then [0, 1] else [3, 4])"

definition example_retriever :: retriever where
  "example_retriever =
     \<lparr>search_faiss = (\<lambda>query top_k. [doc_gamma]),
      wikipedia_search = (\<lambda>query top_k. [doc_alpha, doc_beta]),
      newsapi_search = (\<lambda>query top_k. []),
      encode = (\<lambda>texts. Inr (map example_embed texts))\<rparr>"

definition example_evidence :: "evidence list" where
  "example_evidence = [doc_gamma, doc_alpha, doc_beta]"

text \<open>A pipeline with all three collaborators, and the outside of one call of \<open>analyze\<close>.\<close>

definition example_pipeline :: pipeline where
  "example_pipeline =
     \<lparr>ret = Some example_retriever, gen = Some maybe_generator, tao = Some (tao_init None 0)\<rparr>"

definition example_world :: "nat world" where
  "example_world =
     \<lparr>rng = example_random, rng_state = 0, clock = 100, cuda = Inr False,
      ctime = (\<lambda>t. Inr ''Thu Jan  1 00:01:40 1970'')\<rparr>"

definition blank_text :: string where
  "blank_text = [CHR '' '', CHR 0x09, CHR 0x0A]"

section \<open>Properties of the optimizer\<close>

lemma train_all_updates:
  "list_all (\<lambda>c. snd (snd c) \<noteq> []) calls \<Longrightarrow>
     updates (train_all calls self) = updates self + length calls"
  by (induction calls arbitrary: self)
     (auto simp: continual_train_def Let_def split: sum.splits)

lemma train_all_loss:
  "list_all (\<lambda>c. snd (snd c) \<noteq> []) calls \<Longrightarrow> calls \<noteq> [] \<Longrightarrow>
     loss (train_all calls self) = max 0.01 (0.5 - 0.05 * real (updates self + length calls))"
proof (induction calls arbitrary: self)
  case Nil
  then show ?case by simp
next
  case (Cons c calls)
  obtain now dev batch where c: "c = (now, dev, batch)" by (cases c) auto
  show ?case
  proof (cases "calls = []")
    case True
    with Cons.prems c show ?thesis
      by (auto simp: continual_train_def Let_def split: sum.splits)
  next
    case False
    with Cons.prems c
    have "loss (train_all calls (snd (continual_train now dev batch self))) =
          max 0.01 (0.5 - 0.05 *
            real (updates (snd (continual_train now dev batch self)) + length calls))"
      by (intro Cons.IH) auto
    moreover have "updates (snd (continual_train now dev batch self)) = updates self + 1"
      using Cons.prems c by (auto simp: continual_train_def Let_def split: sum.splits)
    ultimately show ?thesis using c by simp
  qed
qed

text \<open>
  C5. \<open>continual_train\<close> with an empty batch returns the status
  \<open>No data provided for TAO training.\<close> and the optimizer as it was: every field, the
  counters, the loss and the time of the last update, is unchanged.
\<close>

theorem continual_train_empty_batch:
  "continual_train now dev [] self = (''No data provided for TAO training.'', self)"
  by (simp add: continual_train_def)

text \<open>
  C4, as stated, at \<open>n = 0\<close>: a freshly constructed optimizer has made no update and its
  loss is \<open>0.0\<close>, not \<open>max(0.01, 0.5 - 0.05 * 0) = 0.5\<close>.
\<close>

theorem fresh_loss_counterexample:
  "updates (train_all [] (tao_init None 0)) = 0 \<and>
   loss (train_all [] (tao_init None 0)) = 0 \<and>
   loss (train_all [] (tao_init None 0)) \<noteq> max 0.01 (0.5 - 0.05 * real (0::nat))"
  by (simp add: tao_init_def)

text \<open>
  C4, amended. Starting from a freshly constructed optimizer, after \<open>n \<ge> 1\<close> successive
  calls of \<open>continual_train\<close>, each with a non-empty batch, \<open>updates\<close> is \<open>n\<close> and \<open>loss\<close> is
  \<open>max(0.01, 0.5 - 0.05 * n)\<close>, whatever the batches, the times of the calls and the
  outcomes of the device checks are.
\<close>

theorem train_all_count_and_loss:
  assumes "calls \<noteq> []" and "list_all (\<lambda>c. snd (snd c) \<noteq> []) calls"
  shows "updates (train_all calls (tao_init name now)) = length calls \<and>
         loss (train_all calls (tao_init name now)) =
           max 0.01 (0.5 - 0.05 * real (length calls))"
  using train_all_updates[OF assms(2), of "tao_init name now"]
        train_all_loss[OF assms(2) assms(1), of "tao_init name now"]
  by (simp add: tao_init_def)

theorem train_all_count_and_loss_witness:
  "example_calls \<noteq> [] \<and> list_all (\<lambda>c. snd (snd c) \<noteq> []) example_calls \<and>
   updates (train_all example_calls (tao_init None 0)) = 3 \<and>
   loss (train_all example_calls (tao_init None 0)) = 0.35"
  using train_all_count_and_loss[of example_calls None 0]
  by (simp add: example_calls_def)

lemma round_half_even_bounds:
  assumes "of_int a \<le> y" and "y \<le> of_int b"
  shows "a \<le> round_half_even y \<and> round_half_even y \<le> b"
proof -
  have lo: "a \<le> \<lfloor>y\<rfloor>" using assms(1) by (simp add: le_floor_iff)
  have hi: "\<lfloor>y\<rfloor> \<le> b" using assms(2) by (simp add: floor_le_iff) 
  have hi': "\<lfloor>y\<rfloor> + 1 \<le> b" if "0 < y - of_int \<lfloor>y\<rfloor>"
  proof -
    have "of_int \<lfloor>y\<rfloor> < (of_int b :: real)" using that assms(2) by linarith
    then show ?thesis by simp
  qed
  show ?thesis
    using lo hi hi' by (auto simp: round_half_even_def Let_def)
qed

lemma py_round2_bounds:
  assumes "of_int a / 100 \<le> x" and "x \<le> of_int b / 100"
  shows "of_int a / 100 \<le> py_round2 x \<and> py_round2 x \<le> of_int b / 100"
proof -
  have "of_int a \<le> x * 100" "x * 100 \<le> of_int b" using assms by (simp_all add: field_simps)
  from round_half_even_bounds[OF this]
  show ?thesis unfolding py_round2_def by (simp add: divide_le_cancel)
qed

lemma py_round2_temperature: "0.6 \<le> u \<Longrightarrow> u \<le> 0.9 \<Longrightarrow> 0.6 \<le> py_round2 u \<and> py_round2 u \<le> 0.9"
  using py_round2_bounds[of 60 u 90] by simp

lemma py_round2_penalty: "1.0 \<le> v \<Longrightarrow> v \<le> 1.3 \<Longrightarrow> 1.0 \<le> py_round2 v \<and> py_round2 v \<le> 1.3"
  using py_round2_bounds[of 100 v 130] by simp

text \<open>
  C6. When the \<open>random\<close> module keeps its promise, \<open>optimize_generation\<close> returns, from every
  state of the generator, the three decoding parameters with the temperature in
  \<open>[0.6, 0.9]\<close>, the number of beams in \<open>{2, 4, 6}\<close> and the repetition penalty in
  \<open>[1.0, 1.3]\<close>. It returns a dictionary on every path, so no exception leaves it, and
  when one of its three calls raises the result is the fixed default
  \<open>{temperature: 0.7, num_beams: 4, repetition_penalty: 1.2}\<close>.
\<close>

theorem optimize_generation_in_range:
  assumes "random_contract M"
  shows "(\<exists>t b r.
            fst (optimize_generation M g) =
              [(''temperature'', PFloat t), (''num_beams'', PInt b),
               (''repetition_penalty'', PFloat r)] \<and>
            0.6 \<le> t \<and> t \<le> 0.9 \<and> b \<in> {2, 4, 6} \<and> 1.0 \<le> r \<and> r \<le> 1.3) \<and>
         (raises (fst (random_uniform M 0.6 0.9 g)) \<or>
          raises (fst (random_choice M [2, 4, 6] (snd (random_uniform M 0.6 0.9 g)))) \<or>
          raises (fst (random_uniform M 1.0 1.3
                    (snd (random_choice M [2, 4, 6] (snd (random_uniform M 0.6 0.9 g)))))) \<longrightarrow>
          fst (optimize_generation M g) =
            [(''temperature'', PFloat 0.7), (''num_beams'', PInt 4),
             (''repetition_penalty'', PFloat 1.2)])"
proof -
  let ?R = "\<lambda>d. \<exists>t b r.
      d = [(''temperature'', PFloat t), (''num_beams'', PInt b), (''repetition_penalty'', PFloat r)] \<and>
      0.6 \<le> t \<and> t \<le> 0.9 \<and> b \<in> {2, 4, 6} \<and> 1.0 \<le> r \<and> r \<le> 1.3"
  obtain r1 g1 where c1: "random_uniform M 0.6 0.9 g = (r1, g1)" by fastforce
  obtain r2 g2 where c2: "random_choice M [2, 4, 6] g1 = (r2, g2)" by fastforce
  obtain r3 g3 where c3: "random_uniform M 1.0 1.3 g2 = (r3, g3)" by fastforce
  let ?fails = "raises r1 \<or> raises r2 \<or> raises r3"
  have fb: "?R fallback_params"
    unfolding fallback_params_def
    by (rule exI[of _ "0.7"], rule exI[of _ 4], rule exI[of _ "1.2"]) simp
  have caught: "fst (optimize_generation M g) = fallback_params" if ?fails
    using that c1 c2 c3
    by (auto simp: optimize_generation_def raises_def Let_def split: sum.splits)
  have "?R (fst (optimize_generation M g))"
  proof (cases ?fails)
    case True
    with caught fb show ?thesis by simp
  next
    case False
    then obtain u b v where d: "r1 = Inr u" "r2 = Inr b" "r3 = Inr v"
      by (auto simp: raises_def split: sum.splits)
    have "(0.6::real) \<le> 0.9" and "(1.0::real) \<le> 1.3" by simp_all
    with assms c1 c2 c3 d
    have "0.6 \<le> u \<and> u \<le> 0.9" and "b \<in> set [2, 4, 6]" and "1.0 \<le> v \<and> v \<le> 1.3"
      unfolding random_contract_def by (metis fst_conv)+
    then have r: "0.6 \<le> u" "u \<le> 0.9" "b \<in> {2, 4, 6}" "1.0 \<le> v" "v \<le> 1.3"
      by simp_all
    have "fst (optimize_generation M g) =
            [(''temperature'', PFloat (py_round2 u)), (''num_beams'', PInt b),
             (''repetition_penalty'', PFloat (py_round2 v))]"
      using c1 c2 c3 d by (simp add: optimize_generation_def)
    moreover have "0.6 \<le> py_round2 u \<and> py_round2 u \<le> 0.9"
      using r py_round2_temperature by blast
    moreover have "1.0 \<le> py_round2 v \<and> py_round2 v \<le> 1.3"
      using r py_round2_penalty by blast
    ultimately show ?thesis using r(3) by blast
  qed
  with caught c1 c2 c3 show ?thesis by (simp add: fallback_params_def)
qed

lemma point_in_interval:
  fixes a b :: real
  assumes "a \<le> b"
  shows "a \<le> a + (b - a) * 0.448 \<and> a + (b - a) * 0.448 \<le> b"
proof -
  define t where "t = (b - a) * 0.448"
  have d: "0 \<le> b - a" using assms by simp
  then have "0 \<le> t" by (simp add: t_def)
  moreover have "(b - a) * 0.448 \<le> (b - a) * 1"
    using d by (intro mult_left_mono) simp_all
  then have "t \<le> b - a" by (simp only: t_def mult_1_right)
  ultimately have "a \<le> a + t \<and> a + t \<le> b" by linarith
  then show ?thesis by (simp only: t_def)
qed

lemma example_random_contract: "random_contract example_random"
  unfolding random_contract_def example_random_def
  using point_in_interval by auto

lemma failing_random_contract: "random_contract failing_random"
  unfolding random_contract_def failing_random_def
  using point_in_interval by auto

text \<open>
  C6 at a generator whose calls succeed, and at one whose \<open>choice\<close> raises after the first
  call has succeeded.
\<close>

theorem optimize_generation_in_range_witness:
  "random_contract example_random \<and>
   fst (optimize_generation example_random 0) =
     [(''temperature'', PFloat 0.73), (''num_beams'', PInt 4),
      (''repetition_penalty'', PFloat 1.13)] \<and>
   random_contract failing_random \<and>
   raises (fst (random_choice failing_random [2, 4, 6]
                 (snd (random_uniform failing_random 0.6 0.9 0)))) \<and>
   fst (optimize_generation failing_random 0) =
     [(''temperature'', PFloat 0.7), (''num_beams'', PInt 4), (''repetition_penalty'', PFloat 1.2)]"
proof -
  have e: "fst (optimize_generation example_random 0) =
     [(''temperature'', PFloat 0.73), (''num_beams'', PInt 4),
      (''repetition_penalty'', PFloat 1.13)]"
    by (simp add: optimize_generation_def example_random_def py_round2_def round_half_even_def)
  have f: "raises (fst (random_choice failing_random [2, 4, 6]
                 (snd (random_uniform failing_random 0.6 0.9 0))))"
    by (simp add: failing_random_def raises_def)
  from optimize_generation_in_range[OF example_random_contract, of 0]
       optimize_generation_in_range[OF failing_random_contract, of 0]
       example_random_contract failing_random_contract e f
  show ?thesis by blast
qed

section \<open>Properties of the generator\<close>

lemma parse_output_confidence_float:
  "(case dict_get (parse_output G txt) ''confidence'' (PFloat 0.7) of PFloat c \<Rightarrow> True | _ \<Rightarrow> False)"
  by (simp add: parse_output_def parse_error_def dict_get_def Let_def
           split: sum.splits pyval.splits)

lemma parse_output_confidence:
  "\<exists>c. dict_get (parse_output G txt) ''confidence'' (PFloat 0.7) = PFloat c"
  using parse_output_confidence_float[of G "txt"]
  by (cases "dict_get (parse_output G txt) ''confidence'' (PFloat 0.7)") simp_all

lemma map_of_update: "map_of (AList.update k v al) k' = (if k' = k then Some v else map_of al k')"
  by (simp add: update_conv')

lemma correct_unfold:
  "correct_with_evidence parsed claim ev =
     (if rule_a ev then
        (case py_max (dict_get parsed ''confidence'' (PFloat 0.7)) 0.9 of
           Inl e \<Rightarrow> Inl e
         | Inr c \<Rightarrow>
             Inr (AList.update ''counterfactual''
                    (PStr ''If verified empirical data supported the claim, it could be true.'')
                 (AList.update ''explanation''
                    (PStr ''Evidence indicates the claim contradicts scientific consensus.'')
                 (AList.update ''confidence'' c
                 (AList.update ''label'' (PStr ''Fake'') parsed)))))
      else if rule_b claim ev then
        Inr (AList.update ''counterfactual''
               (PStr ''If all scientific and satellite data were falsified, the claim might appear true.'')
            (AList.update ''explanation''
               (PStr ''Scientific consensus confirms Earth is spherical, not flat.'')
            (AList.update ''confidence'' (PFloat 0.95)
            (AList.update ''label'' (PStr ''Fake'') parsed))))
      else if rule_c ev then
        Inr (AList.update ''confidence'' (PFloat 0.9)
            (AList.update ''label'' (PStr ''True'') parsed))
      else if rule_d ev then
        Inr (AList.update ''confidence'' (PFloat 0.6)
            (AList.update ''label'' (PStr ''Uncertain'') parsed))
      else Inr parsed)"
  by (simp add: correct_with_evidence_def rule_a_def rule_b_def rule_c_def rule_d_def Let_def)

lemma false_is_fake_term: "str_in ''false'' s \<Longrightarrow> list_ex (\<lambda>w. str_in w s) fake_terms"
  by (simp add: fake_terms_def)

text \<open>
  C7. For every verdict that \<open>_parse_output\<close> returns and every evidence list whose joined,
  lower-cased text contains both \<open>false\<close> and \<open>proves\<close>, the conditions of rule a and of
  rule c both hold and the correction pass returns the label \<open>Fake\<close>: rule a wins. The
  five rules are tried in the order a, b, c, d, e and the first one whose condition holds
  decides: a gives \<open>Fake\<close>; b, reached when a fails, gives \<open>Fake\<close> and \<open>0.95\<close>; c, reached when
  a and b fail, gives \<open>True\<close> and \<open>0.9\<close>; d, reached when a, b and c fail, gives \<open>Uncertain\<close>
  and \<open>0.6\<close>; otherwise the verdict is returned as it was parsed.
\<close>

theorem correction_priority:
  "(str_in ''false'' (lower (join '' '' ev)) \<and> str_in ''proves'' (lower (join '' '' ev)) \<longrightarrow>
      rule_a ev \<and> rule_c ev \<and>
      (\<exists>v. correct_with_evidence (parse_output G txt) claim ev = Inr v \<and>
           map_of v ''label'' = Some (PStr ''Fake''))) \<and>
   (rule_a ev \<longrightarrow>
      (\<exists>v. correct_with_evidence (parse_output G txt) claim ev = Inr v \<and>
           map_of v ''label'' = Some (PStr ''Fake''))) \<and>
   (\<not> rule_a ev \<and> rule_b claim ev \<longrightarrow>
      (\<exists>v. correct_with_evidence (parse_output G txt) claim ev = Inr v \<and>
           map_of v ''label'' = Some (PStr ''Fake'') \<and>
           map_of v ''confidence'' = Some (PFloat 0.95))) \<and>
   (\<not> rule_a ev \<and> \<not> rule_b claim ev \<and> rule_c ev \<longrightarrow>
      (\<exists>v. correct_with_evidence (parse_output G txt) claim ev = Inr v \<and>
           map_of v ''label'' = Some (PStr ''True'') \<and>
           map_of v ''confidence'' = Some (PFloat 0.9))) \<and>
   (\<not> rule_a ev \<and> \<not> rule_b claim ev \<and> \<not> rule_c ev \<and> rule_d ev \<longrightarrow>
      (\<exists>v. correct_with_evidence (parse_output G txt) claim ev = Inr v \<and>
           map_of v ''label'' = Some (PStr ''Uncertain'') \<and>
           map_of v ''confidence'' = Some (PFloat 0.6))) \<and>
   (\<not> rule_a ev \<and> \<not> rule_b claim ev \<and> \<not> rule_c ev \<and> \<not> rule_d ev \<longrightarrow>
      correct_with_evidence (parse_output G txt) claim ev = Inr (parse_output G txt))"
proof -
  obtain c where c: "dict_get (parse_output G txt) ''confidence'' (PFloat 0.7) = PFloat c"
    using parse_output_confidence by blast
  have a: "\<exists>v. correct_with_evidence (parse_output G txt) claim ev = Inr v \<and>
               map_of v ''label'' = Some (PStr ''Fake'')" if "rule_a ev"
    using that c by (simp add: correct_unfold map_of_update)
  have ac: "rule_a ev \<and> rule_c ev"
    if "str_in ''false'' (lower (join '' '' ev))" "str_in ''proves'' (lower (join '' '' ev))"
    using that false_is_fake_term by (simp add: rule_a_def rule_c_def)
  show ?thesis
    using a ac by (simp add: correct_unfold map_of_update)
qed

lemma refuting_evidence_words:
  "str_in ''false'' (lower (join '' '' refuting_evidence))"
  "str_in ''proves'' (lower (join '' '' refuting_evidence))"
  by code_simp+

lemma flat_earth_rules:
  "\<not> rule_a [''Scientific consensus confirms Earth is round.'']"
  "rule_b ''The Earth is flat.'' [''Scientific consensus confirms Earth is round.'']"
  "rule_c [''Scientific consensus confirms Earth is round.'']"
  by code_simp+

lemma consensus_evidence_rules:
  "\<not> rule_a consensus_evidence"
  "rule_b ''The Earth is flat.'' consensus_evidence"
  by code_simp+

lemma confirming_evidence_rules:
  "\<not> rule_a confirming_evidence"
  "\<not> rule_b ''Cats can fly.'' confirming_evidence"
  "rule_c confirming_evidence"
  by code_simp+

lemma unclear_evidence_rules:
  "\<not> rule_a unclear_evidence"
  "\<not> rule_b ''Cats can fly.'' unclear_evidence"
  "\<not> rule_c unclear_evidence"
  "rule_d unclear_evidence"
  by code_simp+

lemma no_evidence_rules:
  "\<not> rule_a []" "\<not> rule_b ''Cats can fly.'' []" "\<not> rule_c []" "\<not> rule_d []"
  by code_simp+

lemma true_verdict_parse: "true_verdict = parse_output maybe_generator ''it is true''"
  by (simp add: true_verdict_def)

text \<open>C7 at five evidence lists, one for each rule.\<close>

theorem correction_priority_witness:
  "str_in ''false'' (lower (join '' '' refuting_evidence)) \<and>
   str_in ''proves'' (lower (join '' '' refuting_evidence)) \<and>
   (\<exists>v. correct_with_evidence true_verdict ''Cats can fly.'' refuting_evidence = Inr v \<and>
        map_of v ''label'' = Some (PStr ''Fake'')) \<and>
   \<not> rule_a consensus_evidence \<and> rule_b ''The Earth is flat.'' consensus_evidence \<and>
   (\<exists>v. correct_with_evidence true_verdict ''The Earth is flat.'' consensus_evidence = Inr v \<and>
        map_of v ''label'' = Some (PStr ''Fake'') \<and>
        map_of v ''confidence'' = Some (PFloat 0.95)) \<and>
   \<not> rule_a confirming_evidence \<and> \<not> rule_b ''Cats can fly.'' confirming_evidence \<and>
   rule_c confirming_evidence \<and>
   (\<exists>v. correct_with_evidence true_verdict ''Cats can fly.'' confirming_evidence = Inr v \<and>
        map_of v ''label'' = Some (PStr ''True'') \<and>
        map_of v ''confidence'' = Some (PFloat 0.9)) \<and>
   \<not> rule_c unclear_evidence \<and> rule_d unclear_evidence \<and>
   (\<exists>v. correct_with_evidence true_verdict ''Cats can fly.'' unclear_evidence = Inr v \<and>
        map_of v ''label'' = Some (PStr ''Uncertain'') \<and>
        map_of v ''confidence'' = Some (PFloat 0.6)) \<and>
   \<not> rule_d [] \<and>
   correct_with_evidence true_verdict ''Cats can fly.'' [] = Inr true_verdict"
proof -
  note p = correction_priority[of _ maybe_generator "''it is true''", folded true_verdict_parse]
  have a: "\<exists>v. correct_with_evidence true_verdict ''Cats can fly.'' refuting_evidence = Inr v \<and>
        map_of v ''label'' = Some (PStr ''Fake'')"
    using p[of refuting_evidence "''Cats can fly.''"] refuting_evidence_words by blast
  have b: "\<exists>v. correct_with_evidence true_verdict ''The Earth is flat.'' consensus_evidence = Inr v \<and>
        map_of v ''label'' = Some (PStr ''Fake'') \<and>
        map_of v ''confidence'' = Some (PFloat 0.95)"
    using p[of consensus_evidence "''The Earth is flat.''"] consensus_evidence_rules by blast
  have c: "\<exists>v. correct_with_evidence true_verdict ''Cats can fly.'' confirming_evidence = Inr v \<and>
        map_of v ''label'' = Some (PStr ''True'') \<and>
        map_of v ''confidence'' = Some (PFloat 0.9)"
    using p[of confirming_evidence "''Cats can fly.''"] confirming_evidence_rules by blast
  have d: "\<exists>v. correct_with_evidence true_verdict ''Cats can fly.'' unclear_evidence = Inr v \<and>
        map_of v ''label'' = Some (PStr ''Uncertain'') \<and>
        map_of v ''confidence'' = Some (PFloat 0.6)"
    using p[of unclear_evidence "''Cats can fly.''"] unclear_evidence_rules by blast
  have e: "correct_with_evidence true_verdict ''Cats can fly.'' [] = Inr true_verdict"
    using p[of "[]" "''Cats can fly.''"] no_evidence_rules by blast
  show ?thesis
    using a b c d e refuting_evidence_words consensus_evidence_rules confirming_evidence_rules unclear_evidence_rules no_evidence_rules by blast
qed

text \<open>
  C8. With the claim \<open>The Earth is flat.\<close> and the single evidence text
  \<open>Scientific consensus confirms Earth is round.\<close>, the condition of rule a fails, that of
  rule b holds, and although the condition of rule c holds as well (the evidence contains
  \<open>confirm\<close>), the correction pass returns, for every parsed verdict, the label \<open>Fake\<close> with
  confidence \<open>0.95\<close>.
\<close>

theorem flat_earth_scenario:
  "\<not> rule_a [''Scientific consensus confirms Earth is round.''] \<and>
   rule_b ''The Earth is flat.'' [''Scientific consensus confirms Earth is round.''] \<and>
   rule_c [''Scientific consensus confirms Earth is round.''] \<and>
   (\<exists>v. correct_with_evidence parsed ''The Earth is flat.''
          [''Scientific consensus confirms Earth is round.''] = Inr v \<and>
        map_of v ''label'' = Some (PStr ''Fake'') \<and>
        map_of v ''confidence'' = Some (PFloat 0.95))"
  using flat_earth_rules by (simp add: correct_unfold map_of_update)

text \<open>
  C10. When rule c or rule d fires, that is, the conditions of rules a and b fail and that
  of c or d holds, the correction pass returns the parsed dictionary with only the keys
  \<open>label\<close> and \<open>confidence\<close> assigned: every other key, \<open>explanation\<close>, \<open>counterfactual\<close> and
  \<open>reasoning\<close> among them, has the value it had.
\<close>

theorem correction_frame:
  assumes "\<not> rule_a ev" and "\<not> rule_b claim ev" and "rule_c ev \<or> rule_d ev"
  shows "\<exists>v. correct_with_evidence parsed claim ev = Inr v \<and>
             (\<forall>k. k \<noteq> ''label'' \<and> k \<noteq> ''confidence'' \<longrightarrow> map_of v k = map_of parsed k) \<and>
             map_of v ''explanation'' = map_of parsed ''explanation'' \<and>
             map_of v ''counterfactual'' = map_of parsed ''counterfactual'' \<and>
             map_of v ''reasoning'' = map_of parsed ''reasoning''"
  using assms by (auto simp: correct_unfold map_of_update)

text \<open>C10 at an evidence list for rule c and at one for rule d.\<close>

theorem correction_frame_witness:
  "\<not> rule_a confirming_evidence \<and> \<not> rule_b ''Cats can fly.'' confirming_evidence \<and>
   (rule_c confirming_evidence \<or> rule_d confirming_evidence) \<and>
   (\<exists>v. correct_with_evidence true_verdict ''Cats can fly.'' confirming_evidence = Inr v \<and>
        map_of v ''explanation'' = map_of true_verdict ''explanation'' \<and>
        map_of v ''counterfactual'' = map_of true_verdict ''counterfactual'' \<and>
        map_of v ''reasoning'' = map_of true_verdict ''reasoning'') \<and>
   \<not> rule_a unclear_evidence \<and> \<not> rule_b ''Cats can fly.'' unclear_evidence \<and>
   (rule_c unclear_evidence \<or> rule_d unclear_evidence) \<and>
   (\<exists>v. correct_with_evidence true_verdict ''Cats can fly.'' unclear_evidence = Inr v \<and>
        map_of v ''explanation'' = map_of true_verdict ''explanation'' \<and>
        map_of v ''counterfactual'' = map_of true_verdict ''counterfactual'' \<and>
        map_of v ''reasoning'' = map_of true_verdict ''reasoning'')"
proof -
  have c: "\<exists>v. correct_with_evidence true_verdict ''Cats can fly.'' confirming_evidence = Inr v \<and>
        map_of v ''explanation'' = map_of true_verdict ''explanation'' \<and>
        map_of v ''counterfactual'' = map_of true_verdict ''counterfactual'' \<and>
        map_of v ''reasoning'' = map_of true_verdict ''reasoning''"
    using correction_frame[of confirming_evidence "''Cats can fly.''" true_verdict] confirming_evidence_rules
    by blast
  have d: "\<exists>v. correct_with_evidence true_verdict ''Cats can fly.'' unclear_evidence = Inr v \<and>
        map_of v ''explanation'' = map_of true_verdict ''explanation'' \<and>
        map_of v ''counterfactual'' = map_of true_verdict ''counterfactual'' \<and>
        map_of v ''reasoning'' = map_of true_verdict ''reasoning''"
    using correction_frame[of unclear_evidence "''Cats can fly.''" true_verdict] unclear_evidence_rules
    by blast
  show ?thesis using c d confirming_evidence_rules unclear_evidence_rules by blast
qed

text \<open>
  Where \<open>_parse_output\<close> does keep to the three labels: on free text, on a failed
  \<open>json.loads\<close> and on an object without a label.
\<close>

lemma parse_output_free_text_label:
  assumes "\<not> startswith (strip s) ''{''"
  shows "map_of (parse_output G s) ''label'' \<in>
           {Some (PStr ''True''), Some (PStr ''Fake''), Some (PStr ''Uncertain'')}"
  using assms by (simp add: parse_output_def Let_def)

lemma parse_output_failed_parse_label:
  assumes "json_loads G s = Inl e"
  shows "map_of (parse_output G s) ''label'' \<in>
           {Some (PStr ''True''), Some (PStr ''Fake''), Some (PStr ''Uncertain'')}"
  using assms by (simp add: parse_output_def parse_error_def Let_def)

lemma parse_output_missing_label:
  assumes "json_loads G s = Inr (PDict data)" and "map_of data ''label'' = None"
  shows "map_of (parse_output G s) ''label'' \<in>
           {Some (PStr ''True''), Some (PStr ''Fake''), Some (PStr ''Uncertain'')}"
  using assms by (simp add: parse_output_def parse_error_def dict_get_def Let_def split: sum.splits)

text \<open>
  C1 fails on the code. When the model's output is the JSON object \<open>{"label": "Maybe"}\<close>
  and no correction rule fires, \<open>generate_explanation\<close> returns the label \<open>Maybe\<close>, which is
  none of \<open>True\<close>, \<open>Fake\<close>, \<open>Uncertain\<close>: the structured branch of \<open>_parse_output\<close> passes the
  label on as it finds it, where the free-text branch and the exception handler produce
  one of the three labels.
\<close>

theorem unchecked_label:
  "generate_explanation maybe_generator ''Cats can fly.'' [] None =
     Inr [(''label'', PStr ''Maybe''), (''confidence'', PFloat 0.6), (''explanation'', PStr []),
          (''counterfactual'', PStr []), (''reasoning'', PList [])] \<and>
   PStr ''Maybe'' \<notin> {PStr ''True'', PStr ''Fake'', PStr ''Uncertain''}"
  by code_simp

text \<open>
  C2, as stated, at the claim of one space: the claim is whitespace only, the model is
  called and the result is not the \<open>Empty claim\<close> dictionary.
\<close>

theorem whitespace_claim_counterexample:
  "list_all isspace '' '' \<and>
   generate_explanation maybe_generator '' '' [] None \<noteq>
     Inr [(''label'', PStr ''Uncertain''), (''confidence'', PFloat 0.0),
          (''explanation'', PStr ''Empty claim'')]"
  by code_simp

text \<open>
  C2, amended. For the empty claim string \<open>generate_explanation\<close> returns
  \<open>{label: Uncertain, confidence: 0.0, explanation: "Empty claim"}\<close> whatever the generator,
  the evidence and the decoding parameters are: the model is not called, so a model that
  raises changes nothing.
\<close>

theorem empty_claim_short_circuit:
  "generate_explanation G [] evidence_texts decoding_params =
     Inr [(''label'', PStr ''Uncertain''), (''confidence'', PFloat 0.0),
          (''explanation'', PStr ''Empty claim'')]"
  by (simp add: generate_explanation_def empty_claim_def)

section \<open>Properties of the pipeline\<close>

lemma strip_blank:
  assumes "list_all isspace s"
  shows "strip s = []"
proof -
  have d: "dropWhile isspace s = []"
    using assms by (simp add: list_all_iff dropWhile_eq_Nil_conv)
  show ?thesis unfolding strip_def d by simp
qed

text \<open>
  C9. For every input text that is empty or made of whitespace only, \<open>analyze\<close> returns the
  dictionary with label \<open>Uncertain\<close>, confidence \<open>0.0\<close>, explanation \<open>Empty input.\<close> and an
  empty \<open>_evidence\<close> list (and the status \<open>No input provided.\<close>), whatever the retriever,
  the generator, the optimizer and the outside world are, and leaves the pipeline, the
  optimizer's statistics included, as it was: none of the three is called.
\<close>

theorem analyze_blank_input:
  assumes "list_all isspace s"
  shows "analyze W self s =
           ([(''label'', PStr ''Uncertain''),
             (''confidence'', PFloat 0.0),
             (''explanation'', PStr ''Empty input.''),
             (''_evidence'', PList []),
             (''tao_status'', PStr ''No input provided.'')], self)"
  using strip_blank[OF assms] by (simp add: analyze_def empty_input_def)

text \<open>C9 at a text of a space, a tab and a newline, with all three collaborators present.\<close>

theorem analyze_blank_input_witness:
  "list_all isspace blank_text \<and>
   analyze example_world example_pipeline blank_text =
     ([(''label'', PStr ''Uncertain''),
       (''confidence'', PFloat 0.0),
       (''explanation'', PStr ''Empty input.''),
       (''_evidence'', PList []),
       (''tao_status'', PStr ''No input provided.'')], example_pipeline)"
proof -
  have b: "list_all isspace blank_text" by code_simp
  from analyze_blank_input[OF b, of example_world example_pipeline] b show ?thesis by simp
qed

section \<open>Properties of the retriever\<close>

lemma length_normalize_L2 [simp]: "length (normalize_L2 v) = length v"
  by (simp add: normalize_L2_def Let_def)

lemma set_scores_map2:
  "length ss = length es \<Longrightarrow> set_scores ss es = map2 (\<lambda>e s. e\<lparr>ev_score := Some s\<rparr>) es ss"
  by (induction ss es rule: list_induct2) simp_all

lemma np_dot_T_query:
  assumes "list_all (\<lambda>t. length t = length q) ts"
  shows "np_dot_T (map normalize_L2 ts) (map normalize_L2 [q]) =
           Inr (map (\<lambda>t. cosine_similarity t q) ts)"
  using assms
  by (simp add: np_dot_T_def list_all_iff cosine_similarity_def comp_def)

lemma set_scores_cosine:
  assumes "length ts = length es"
  shows "set_scores (map (\<lambda>t. cosine_similarity t q) ts) es = cosine_scored es ts q"
  using assms
  by (simp add: set_scores_map2 cosine_scored_def zip_map2 case_prod_unfold comp_def)

lemma cosine_scored_some:
  "e \<in> set (cosine_scored es ts q) \<Longrightarrow> ev_score e = Some (score_key e)"
  by (auto simp: cosine_scored_def score_key_def)

lemma cosine_scored_no_none: "\<not> list_ex (\<lambda>e. ev_score e = None) (cosine_scored es ts q)"
  by (auto simp: list_ex_iff dest: cosine_scored_some)

lemma length_ranked [simp]: "length (ranked es) = length es"
  by (simp add: ranked_def)

lemma set_ranked [simp]: "set (ranked es) = set es"
  by (simp add: ranked_def)

lemma ranked_descending: "sorted_wrt (\<lambda>a b. score_key b \<le> score_key a) (ranked es)"
proof -
  have "sorted (map score_key (sort_key score_key (rev es)))"
    by (rule sorted_sort_key)
  then have "sorted_wrt (\<lambda>a b. score_key a \<le> score_key b) (sort_key score_key (rev es))"
    by (simp add: sorted_map)
  then show ?thesis
    by (simp add: ranked_def sorted_wrt_rev)
qed

lemma ranked_stable: "filter (\<lambda>e. score_key e = s) (ranked es) = filter (\<lambda>e. score_key e = s) es"
proof -
  have "filter (\<lambda>e. score_key e = s) (sort_key score_key (rev es)) =
        filter (\<lambda>e. score_key e = s) (rev es)"
    by (rule sort_key_stable)
  then show ?thesis
    by (simp add: ranked_def rev_filter[symmetric])
qed

lemma filter_take_prefix: "prefix (filter P (take n xs)) (filter P xs)"
proof -
  have "filter P xs = filter P (take n xs) @ filter P (drop n xs)"
    by (metis append_take_drop_id filter_append)
  then show ?thesis by (simp add: prefix_def)
qed

lemma scoring_pass_success:
  assumes "encode R [query] = Inr [q_emb]"
    and "encode R (map ev_text evidence) = Inr text_embs"
    and "length text_embs = length evidence"
    and "list_all (\<lambda>t. length t = length q_emb) text_embs"
  shows "scoring_pass R query top_k evidence =
           slice_to (ranked (cosine_scored evidence text_embs q_emb)) top_k"
proof -
  have "np_dot_T (map normalize_L2 text_embs) (map normalize_L2 [q_emb]) =
          Inr (map (\<lambda>t. cosine_similarity t q_emb) text_embs)"
    using assms(4) by (rule np_dot_T_query)
  moreover have "set_scores (map (\<lambda>t. cosine_similarity t q_emb) text_embs) evidence =
          cosine_scored evidence text_embs q_emb"
    using assms(3) by (rule set_scores_cosine)
  moreover have "sorted_by_score (cosine_scored evidence text_embs q_emb) =
          Inr (ranked (cosine_scored evidence text_embs q_emb))"
    using cosine_scored_no_none by (simp add: sorted_by_score_def ranked_def)
  ultimately show ?thesis
    using assms(1,2,3) by (simp add: scoring_pass_def Let_def)
qed

lemma mset_ranked [simp]: "mset (ranked es) = mset es"
  by (simp add: ranked_def)

lemma ranked_cut:
  "\<forall>e\<in>set (take n (ranked es)). \<forall>d\<in>set (drop n (ranked es)). score_key d \<le> score_key e"
proof -
  have "sorted_wrt (\<lambda>a b. score_key b \<le> score_key a) (take n (ranked es) @ drop n (ranked es))"
    using ranked_descending by simp
  then show ?thesis
    unfolding sorted_wrt_append by blast
qed

lemma cosine_scored_nth:
  assumes "length ts = length es" and "i < length es"
  shows "cosine_scored es ts q ! i = (es ! i)\<lparr>ev_score := Some (cosine_similarity (ts ! i) q)\<rparr>"
  using assms by (simp add: cosine_scored_def)

text \<open>
  C3. Let the query be non-empty, let the concatenation of the three adapters' answers be
  non-empty and let the scoring pass succeed: the embedder returns one row for the query
  and one row of the same dimension for each document. Write \<open>scored\<close> for the
  concatenation in which every document, in place and whatever score its adapter had
  supplied, has as score the product of its normalised embedding with the normalised
  embedding of the query, the cosine similarity. Then, for a limit \<open>top_k \<ge> 0\<close>, \<open>retrieve\<close>
  returns exactly the first \<open>top_k\<close> documents of \<open>ranked scored\<close>, which is a rearrangement
  of \<open>scored\<close> in descending order of score that keeps documents of equal score in the
  order of the concatenation. So it returns \<open>min(top_k, n)\<close> documents for a concatenation
  of \<open>n\<close>, at most \<open>top_k\<close>, in descending order, ties in their original order, and no
  document left out has a higher score than one returned.
\<close>

theorem retrieve_ranked:
  assumes "query \<noteq> []"
    and "evidence =
             search_faiss R query top_k @ wikipedia_search R query 2 @ newsapi_search R query 3"
    and "evidence \<noteq> []"
    and "encode R [query] = Inr [q_emb]"
    and "encode R (map ev_text evidence) = Inr text_embs"
    and "length text_embs = length evidence"
    and "list_all (\<lambda>t. length t = length q_emb) text_embs"
    and "0 \<le> top_k"
  shows "retrieve R query top_k =
           take (nat top_k) (ranked (cosine_scored evidence text_embs q_emb)) \<and>
         length (retrieve R query top_k) = min (nat top_k) (length evidence) \<and>
         length (cosine_scored evidence text_embs q_emb) = length evidence \<and>
         (\<forall>i<length evidence.
            cosine_scored evidence text_embs q_emb ! i =
              (evidence ! i)\<lparr>ev_score := Some (cosine_similarity (text_embs ! i) q_emb)\<rparr>) \<and>
         mset (ranked (cosine_scored evidence text_embs q_emb)) =
           mset (cosine_scored evidence text_embs q_emb) \<and>
         sorted_wrt (\<lambda>a b. score_key b \<le> score_key a)
           (ranked (cosine_scored evidence text_embs q_emb)) \<and>
         (\<forall>s. filter (\<lambda>e. ev_score e = Some s) (ranked (cosine_scored evidence text_embs q_emb)) =
              filter (\<lambda>e. ev_score e = Some s) (cosine_scored evidence text_embs q_emb)) \<and>
         (\<forall>e\<in>set (retrieve R query top_k).
            \<forall>d\<in>set (drop (nat top_k) (ranked (cosine_scored evidence text_embs q_emb))).
              score_key d \<le> score_key e) \<and>
         length (retrieve R query top_k) \<le> nat top_k \<and>
         sorted_wrt (\<lambda>a b. score_key b \<le> score_key a) (retrieve R query top_k) \<and>
         (\<forall>s. prefix (filter (\<lambda>e. ev_score e = Some s) (retrieve R query top_k))
                     (filter (\<lambda>e. ev_score e = Some s)
                        (cosine_scored evidence text_embs q_emb))) \<and>
         set (retrieve R query top_k) \<subseteq> set (cosine_scored evidence text_embs q_emb) \<and>
         list_all (\<lambda>e. ev_score e = Some (score_key e)) (retrieve R query top_k)"
proof -
  let ?scored = "cosine_scored evidence text_embs q_emb"
  let ?res = "take (nat top_k) (ranked ?scored)"
  have "retrieve R query top_k = scoring_pass R query top_k evidence"
    unfolding retrieve_def Let_def assms(2)[symmetric] using assms(1,3) by simp
  also have "\<dots> = slice_to (ranked ?scored) top_k"
    using assms(4,5,6,7) by (rule scoring_pass_success)
  also have "\<dots> = ?res"
    using assms(8) by (simp add: slice_to_def)
  finally have res: "retrieve R query top_k = ?res" .
  have len: "length ?scored = length evidence"
    using assms(6) by (simp add: cosine_scored_def)
  have nth: "\<forall>i<length evidence.
      ?scored ! i = (evidence ! i)\<lparr>ev_score := Some (cosine_similarity (text_embs ! i) q_emb)\<rparr>"
    using assms(6) by (simp add: cosine_scored_nth)
  have sub: "set ?res \<subseteq> set ?scored"
    using set_take_subset[of "nat top_k" "ranked ?scored"] by simp
  have some: "ev_score e = Some (score_key e)" if "e \<in> set ?scored" for e
    using that by (rule cosine_scored_some)
  have key: "(ev_score e = Some s) = (score_key e = s)" if "e \<in> set ?scored" for e s
    using some[OF that] by auto
  have stable: "filter (\<lambda>e. ev_score e = Some s) (ranked ?scored) =
                filter (\<lambda>e. ev_score e = Some s) ?scored" for s
  proof -
    have "filter (\<lambda>e. ev_score e = Some s) (ranked ?scored) =
          filter (\<lambda>e. score_key e = s) (ranked ?scored)"
      using key by (intro filter_cong) auto
    moreover have "filter (\<lambda>e. ev_score e = Some s) ?scored = filter (\<lambda>e. score_key e = s) ?scored"
      using key by (intro filter_cong) auto
    ultimately show ?thesis by (simp add: ranked_stable)
  qed
  have ties: "prefix (filter (\<lambda>e. ev_score e = Some s) ?res)
                     (filter (\<lambda>e. ev_score e = Some s) ?scored)" for s
    using filter_take_prefix[of "\<lambda>e. ev_score e = Some s" "nat top_k" "ranked ?scored"]
    by (simp only: stable)
  have "length ?res = min (nat top_k) (length evidence)"
    using len by simp
  moreover have "length ?res \<le> nat top_k" by simp
  moreover have "sorted_wrt (\<lambda>a b. score_key b \<le> score_key a) ?res"
    using ranked_descending by (rule sorted_wrt_take)
  moreover have "list_all (\<lambda>e. ev_score e = Some (score_key e)) ?res"
    using sub some by (auto simp: list_all_iff)
  moreover note ranked_cut[of "nat top_k" ?scored] ranked_descending[of ?scored]
  ultimately show ?thesis
    unfolding res using len nth sub stable ties by simp
qed

text \<open>
  The example: the local hit and the second encyclopedic hit both score \<open>0.8\<close> and keep
  the order of the concatenation, the score \<open>0.99\<close> of the adapter is gone, and the first
  encyclopedic hit, with \<open>0.6\<close>, is cut off.
\<close>

lemma example_retrieve:
  "retrieve example_retriever ''q'' 2 =
     [doc_gamma\<lparr>ev_score := Some 0.8\<rparr>, doc_beta\<lparr>ev_score := Some 0.8\<rparr>]"
  by (simp add: retrieve_def example_retriever_def scoring_pass_def np_dot_T_def normalize_L2_def
        dot_def sorted_by_score_def score_key_def slice_to_def doc_gamma_def doc_alpha_def
        doc_beta_def Let_def)

text \<open>
  C3 at the example retriever, the query \<open>q\<close> and the limit 2: two of the three documents
  come back, the two that score \<open>0.8\<close>.
\<close>

theorem retrieve_ranked_witness:
  "''q'' \<noteq> [] \<and>
   example_evidence =
     search_faiss example_retriever ''q'' 2 @ wikipedia_search example_retriever ''q'' 2 @
     newsapi_search example_retriever ''q'' 3 \<and>
   example_evidence \<noteq> [] \<and>
   encode example_retriever [''q''] = Inr [[3, 4]] \<and>
   encode example_retriever (map ev_text example_evidence) = Inr [[0, 2], [1, 0], [0, 1]] \<and>
   retrieve example_retriever ''q'' 2 =
     take (nat 2) (ranked (cosine_scored example_evidence [[0, 2], [1, 0], [0, 1]] [3, 4])) \<and>
   length (retrieve example_retriever ''q'' 2) = min (nat 2) (length example_evidence) \<and>
   retrieve example_retriever ''q'' 2 =
     [doc_gamma\<lparr>ev_score := Some 0.8\<rparr>, doc_beta\<lparr>ev_score := Some 0.8\<rparr>] \<and>
   sorted_wrt (\<lambda>a b. score_key b \<le> score_key a) (retrieve example_retriever ''q'' 2) \<and>
   (\<forall>s. prefix (filter (\<lambda>e. ev_score e = Some s) (retrieve example_retriever ''q'' 2))
               (filter (\<lambda>e. ev_score e = Some s)
                  (cosine_scored example_evidence [[0, 2], [1, 0], [0, 1]] [3, 4])))"
proof -
  have h0: "''q'' \<noteq> []" by simp
  have h1: "example_evidence =
     search_faiss example_retriever ''q'' 2 @ wikipedia_search example_retriever ''q'' 2 @
     newsapi_search example_retriever ''q'' 3"
    by (simp add: example_evidence_def example_retriever_def)
  have h2: "example_evidence \<noteq> []" by (simp add: example_evidence_def)
  have h3: "encode example_retriever [''q''] = Inr [[3, 4]]"
    by (simp add: example_retriever_def)
  have h4: "encode example_retriever (map ev_text example_evidence) = Inr [[0, 2], [1, 0], [0, 1]]"
    by (simp add: example_retriever_def example_evidence_def doc_gamma_def doc_alpha_def
          doc_beta_def)
  have h5: "length [[0, 2], [1, 0], [0, 1::real]] = length example_evidence"
    by (simp add: example_evidence_def)
  have h6: "list_all (\<lambda>t. length t = length [3, 4::real]) [[0, 2], [1, 0], [0, 1]]" by simp
  have h7: "(0::int) \<le> 2" by simp
  from retrieve_ranked[OF h0 h1 h2 h3 h4 h5 h6 h7] h0 h1 h2 h3 h4 example_retrieve
  show ?thesis by blast
qed

text \<open>
  For vectors that are not zero, the product of the normalised vectors is the quotient of
  the product by the norms.
\<close>

lemma dot_scaled:
  "length u = length v \<Longrightarrow>
     dot (map (\<lambda>x. x * a) u) (map (\<lambda>x. x * b) v) = a * b * dot u v"
  by (induction u v rule: list_induct2) (simp_all add: dot_def algebra_simps)

lemma cosine_similarity_formula:
  assumes "length u = length v"
    and "0 < sum_list (map (\<lambda>x. x * x) u)" and "0 < sum_list (map (\<lambda>x. x * x) v)"
  shows "cosine_similarity u v =
           dot u v / (sqrt (sum_list (map (\<lambda>x. x * x) u)) * sqrt (sum_list (map (\<lambda>x. x * x) v)))"
proof -
  let ?a = "sqrt (sum_list (map (\<lambda>x. x * x) u))"
  let ?b = "sqrt (sum_list (map (\<lambda>x. x * x) v))"
  have "cosine_similarity u v =
          dot (map (\<lambda>x. x * (1 / ?a)) u) (map (\<lambda>x. x * (1 / ?b)) v)"
    unfolding cosine_similarity_def normalize_L2_def Let_def
    by (simp only: assms(2,3) if_True)
  also have "\<dots> = (1 / ?a) * (1 / ?b) * dot u v"
    using assms(1) by (rule dot_scaled)
  also have "\<dots> = dot u v / (?a * ?b)"
    by simp
  finally show ?thesis .
qed

end
